theory Spec2Isabelle
  imports Main "HOL-Library.Word"
begin

section \<open>xzwriter: a WriteCloser that pipes through an external XZ compressor\<close>

text \<open>
  The package is glue around \<^verbatim>\<open>os/exec\<close>, \<^verbatim>\<open>io\<close> and \<^verbatim>\<open>runtime\<close>. Its own
  functions are embedded below, one definition per Go function, with explicit state
  passing. Everything the package calls but does not define is the environment:
  \<^item> every call that leaves the package is appended to a log of events, together with
    the result it gave;
  \<^item> the results of those calls are not computed here: an \<open>Env\<close> gives, for the
    history so far, the error (or count and error) the call returns.
  A Go \<^verbatim>\<open>error\<close> is an \<open>error option\<close> (\<open>None\<close> is \<^verbatim>\<open>nil\<close>), and a
  \<^verbatim>\<open>panic\<close> is the \<open>Panic\<close> branch of a result. The context is the caller's
  object: each of its methods that is called on the way may return or panic.
\<close>

subsection \<open>Values\<close>

type_synonym byte = "8 word"

datatype error = Error string

text \<open>An \<^verbatim>\<open>interface{}\<close> value, as far as a type assertion to \<^verbatim>\<open>bool\<close> can tell.\<close>

datatype any = NilValue | BoolValue bool | OtherValue

datatype 'a result = Panic string | Return 'a

text \<open>
  A non-nil \<^verbatim>\<open>context.Context\<close>: an interface value that holds something, which may
  be the caller's own type, or a nil pointer of it (a typed nil is not the nil interface
  and passes \<^verbatim>\<open>ctx == nil\<close>). It is known by what its methods do when they are
  called during creation, each of which returns or panics:
  \<^item> \<open>ctxValue\<close>: \<^verbatim>\<open>ctx.Value(blankContextDiscriminatorKey(0))\<close>, called by
    \<^verbatim>\<open>calledByNew\<close>;
  \<^item> \<open>ctxDone\<close>: \<^verbatim>\<open>ctx.Done()\<close>, called by \<^verbatim>\<open>os/exec\<close> inside \<^verbatim>\<open>Start\<close>.
\<close>

datatype Context = Context (ctxValue: "any result") (ctxDone: "unit result")

text \<open>The destination \<^verbatim>\<open>io.Writer\<close>: the nil interface, or a writer known by a handle.\<close>

datatype Writer = NilWriter | Writer nat

text \<open>
  \<^verbatim>\<open>exec.Cmd\<close>, by what the package gives it: the context, the name of the executable
  (which \<^verbatim>\<open>os/exec\<close> looks up on the search path), the arguments with the name first,
  as in Go, and the writer set as \<^verbatim>\<open>Stdout\<close>.
\<close>

record Cmd =
  Ctx :: Context
  Name :: string
  Args :: "string list"
  Stdout :: Writer

text \<open>
  A stream that can be written and closed: the standard-input pipe of the command of
  the sink allocated at an address, or a destination writer.
\<close>

datatype stream = StdinPipe nat | Destination Writer

text \<open>
  \<^verbatim>\<open>type XZWriter struct { cmd *exec.Cmd; pipe io.WriteCloser }\<close>, with the address
  \<^verbatim>\<open>new(XZWriter)\<close> gave it.
\<close>

record XZWriter =
  addr :: nat
  cmd :: Cmd
  pipe :: stream

text \<open>
  The finalizer closure of \<^verbatim>\<open>activateSharpEdgedFinalizer\<close>, by the variables it
  captures: it panics with "xzwriter created at file:line, but never canceled".
\<close>

datatype finalizer = NeverCanceled string int

type_synonym frame = "string \<times> int"

subsection \<open>The environment\<close>

datatype event =
    Call_StdinPipe nat "error option"
  | Call_Start nat Cmd "error option"
  | Call_Wait nat "error option"
  | Call_Write stream "byte list" int "error option"
  | Call_Close stream "error option"
  | Call_SetFinalizer nat "finalizer option"

record Env =
  StdinPipe_err :: "event list \<Rightarrow> error option"
  Start_err :: "event list \<Rightarrow> Cmd \<Rightarrow> error option"
  Wait_err :: "event list \<Rightarrow> error option"
  Write_res :: "event list \<Rightarrow> stream \<Rightarrow> byte list \<Rightarrow> int \<times> error option"
  Close_err :: "event list \<Rightarrow> stream \<Rightarrow> error option"

record World =
  events :: "event list"
  finalizers :: "nat \<Rightarrow> finalizer option"
  allocated :: nat

definition emit :: "event \<Rightarrow> World \<Rightarrow> World" where
  "emit ev s = s\<lparr>events := events s @ [ev]\<rparr>"

text \<open>\<^verbatim>\<open>new(XZWriter)\<close>: a fresh address.\<close>

definition new :: "World \<Rightarrow> nat \<times> World" where
  "new s = (allocated s, s\<lparr>allocated := Suc (allocated s)\<rparr>)"

text \<open>
  \<^verbatim>\<open>exec.CommandContext(ctx, name, arg...)\<close> builds the command and starts nothing;
  when the name is not found on the search path, it is \<^verbatim>\<open>Start\<close> that returns the
  error.
\<close>

definition CommandContext :: "Context \<Rightarrow> string \<Rightarrow> string list \<Rightarrow> Cmd" where
  "CommandContext ctx name arg = \<lparr>Ctx = ctx, Name = name, Args = name # arg, Stdout = NilWriter\<rparr>"

text \<open>
  \<^verbatim>\<open>cmd.StdinPipe()\<close> returns a pipe and a nil error, or a nil pipe and the error:
  \<open>Inr\<close> the pipe, \<open>Inl\<close> the error.
\<close>

definition Cmd_StdinPipe :: "Env \<Rightarrow> nat \<Rightarrow> World \<Rightarrow> (error + stream) \<times> World" where
  "Cmd_StdinPipe env a s =
     (let err = StdinPipe_err env (events s)
      in (case err of None \<Rightarrow> Inr (StdinPipe a) | Some e \<Rightarrow> Inl e, emit (Call_StdinPipe a err) s))"

text \<open>
  \<^verbatim>\<open>cmd.Start()\<close>. \<open>Start_err\<close> is the error \<^verbatim>\<open>Start\<close> returns when it fails, a
  failed lookup of the executable for one. A \<^verbatim>\<open>Start\<close> that does not fail calls
  \<^verbatim>\<open>Done\<close> on the command's context before it starts the process; when that call
  panics, \<^verbatim>\<open>Start\<close> is left by the panic, with no process started and no result to log.
\<close>

definition Cmd_Start :: "Env \<Rightarrow> nat \<Rightarrow> Cmd \<Rightarrow> World \<Rightarrow> error option result \<times> World" where
  "Cmd_Start env a c s =
     (let err = Start_err env (events s) c
      in (case err of
            Some e \<Rightarrow> (Return err, emit (Call_Start a c err) s)
          | None \<Rightarrow>
              (case ctxDone (Ctx c) of
                 Panic m \<Rightarrow> (Panic m, s)
               | Return u \<Rightarrow> (Return err, emit (Call_Start a c err) s))))"

definition Cmd_Wait :: "Env \<Rightarrow> nat \<Rightarrow> World \<Rightarrow> error option \<times> World" where
  "Cmd_Wait env a s = (let err = Wait_err env (events s) in (err, emit (Call_Wait a err) s))"

definition stream_Write :: "Env \<Rightarrow> stream \<Rightarrow> byte list \<Rightarrow> World \<Rightarrow> (int \<times> error option) \<times> World" where
  "stream_Write env st p s =
     (let (n, err) = Write_res env (events s) st p in ((n, err), emit (Call_Write st p n err) s))"

definition stream_Close :: "Env \<Rightarrow> stream \<Rightarrow> World \<Rightarrow> error option \<times> World" where
  "stream_Close env st s =
     (let err = Close_err env (events s) st in (err, emit (Call_Close st err) s))"

text \<open>\<^verbatim>\<open>runtime.SetFinalizer(obj, f)\<close>: sets, or with nil clears, the finalizer of obj.\<close>

definition runtime_SetFinalizer :: "nat \<Rightarrow> finalizer option \<Rightarrow> World \<Rightarrow> World" where
  "runtime_SetFinalizer a f s = emit (Call_SetFinalizer a f) (s\<lparr>finalizers := (finalizers s)(a := f)\<rparr>)"

text \<open>
  \<^verbatim>\<open>runtime.Caller(skip)\<close> on a call stack, innermost frame first: frame 0 is the
  function calling \<^verbatim>\<open>Caller\<close>. Past the end of the stack it gives the zero values.
\<close>

definition runtime_Caller :: "nat \<Rightarrow> frame list \<Rightarrow> frame" where
  "runtime_Caller skip stk = (if skip < length stk then stk ! skip else ('''', 0))"

subsection \<open>The package\<close>

definition thisFile :: string where
  "thisFile = ''xzwriter.go''"

text \<open>
  \<^verbatim>\<open>blankContext = context.WithValue(context.Background(), blankContextDiscriminatorKey(0), true)\<close>:
  a context of the standard library, whose \<^verbatim>\<open>Value\<close> gives \<^verbatim>\<open>true\<close> under the key
  and whose \<^verbatim>\<open>Done\<close> returns.
\<close>

definition blankContext :: Context where
  "blankContext = Context (Return (BoolValue True)) (Return ())"

text \<open>
  \<^verbatim>\<open>v, ok := ctx.Value(blankContextDiscriminatorKey(0)).(bool); return ok && v\<close>. The
  call of \<^verbatim>\<open>Value\<close> is a call of the caller's method: when it panics, so does this.
\<close>

definition calledByNew :: "Context \<Rightarrow> bool result" where
  "calledByNew ctx =
     (case ctxValue ctx of
        Panic m \<Rightarrow> Panic m
      | Return v \<Rightarrow> Return (case v of BoolValue b \<Rightarrow> b | _ \<Rightarrow> False))"

text \<open>
  \<open>stk\<close> is the stack of the callers of \<^verbatim>\<open>activateSharpEdgedFinalizer\<close>; its own
  frame stands at line 96, where it calls \<^verbatim>\<open>runtime.Caller\<close>. \<^verbatim>\<open>calledByNew\<close> is
  called first (line 93): when it panics, no finalizer has been set.
\<close>

definition activateSharpEdgedFinalizer ::
  "XZWriter \<Rightarrow> Context \<Rightarrow> frame list \<Rightarrow> World \<Rightarrow> unit result \<times> World" where
  "activateSharpEdgedFinalizer xz ctx stk s =
     (case calledByNew ctx of
        Panic m \<Rightarrow> (Panic m, s)
      | Return byNew \<Rightarrow>
          (let skip = (if byNew then 3 else 2);
               (file, line) = runtime_Caller skip ((thisFile, 96) # stk)
           in (Return (), runtime_SetFinalizer (addr xz) (Some (NeverCanceled file line)) s)))"

definition deactivateSharpEdgedFinalizer :: "XZWriter \<Rightarrow> World \<Rightarrow> World" where
  "deactivateSharpEdgedFinalizer xz s = runtime_SetFinalizer (addr xz) None s"

text \<open>
  \<open>stk\<close> is the stack of the callers of \<^verbatim>\<open>NewWithContext\<close>; the nil interface is
  \<open>None\<close>. The command is started at line 65 and the finalizer activated at line 70; a
  panic of either goes through \<^verbatim>\<open>NewWithContext\<close>, which recovers nothing.
\<close>

definition NewWithContext ::
  "Env \<Rightarrow> frame list \<Rightarrow> Context option \<Rightarrow> Writer \<Rightarrow> World \<Rightarrow> (XZWriter option \<times> error option) result \<times> World" where
  "NewWithContext env stk ctx w s =
     (case ctx of
        None \<Rightarrow> (Panic ''nil Context'', s)
      | Some c \<Rightarrow>
          (let (a, s1) = new s;
               cmd0 = CommandContext c ''xz'' [''--quiet'', ''--compress'', ''--stdout'', ''--best'', ''-''];
               cmd1 = cmd0\<lparr>Stdout := w\<rparr>;
               (r, s2) = Cmd_StdinPipe env a s1
           in (case r of
                 Inl e \<Rightarrow> (Return (None, Some e), s2)
               | Inr p \<Rightarrow>
                   (let (started, s3) = Cmd_Start env a cmd1 s2
                    in (case started of
                          Panic m \<Rightarrow> (Panic m, s3)
                        | Return err \<Rightarrow>
                            (case err of
                               Some e \<Rightarrow> (Return (None, err), s3)
                             | None \<Rightarrow>
                                 (let xz = \<lparr>addr = a, cmd = cmd1, pipe = p\<rparr>;
                                      (activated, s4) =
                                        activateSharpEdgedFinalizer xz c ((thisFile, 70) # stk) s3
                                  in (case activated of
                                        Panic m \<Rightarrow> (Panic m, s4)
                                      | Return u \<Rightarrow> (Return (Some xz, err), s4)))))))))"

text \<open>\<^verbatim>\<open>New\<close> calls \<^verbatim>\<open>NewWithContext(blankContext, w)\<close> at line 40.\<close>

definition New ::
  "Env \<Rightarrow> frame list \<Rightarrow> Writer \<Rightarrow> World \<Rightarrow> (XZWriter option \<times> error option) result \<times> World" where
  "New env stk w s = NewWithContext env ((thisFile, 40) # stk) (Some blankContext) w s"

definition Write :: "Env \<Rightarrow> XZWriter \<Rightarrow> byte list \<Rightarrow> World \<Rightarrow> (int \<times> error option) \<times> World" where
  "Write env xz p s = stream_Write env (pipe xz) p s"

definition Close :: "Env \<Rightarrow> XZWriter \<Rightarrow> World \<Rightarrow> error option \<times> World" where
  "Close env xz s =
     (let s1 = deactivateSharpEdgedFinalizer xz s;
          (errPipe, s2) = stream_Close env (pipe xz) s1;
          (errWait, s3) = Cmd_Wait env (addr xz) s2
      in (case errPipe of
            Some e \<Rightarrow> (errPipe, s3)
          | None \<Rightarrow> (errWait, s3)))"

subsection \<open>What the log shows\<close>

text \<open>
  \<^verbatim>\<open>os/exec\<close>: a process exists once \<^verbatim>\<open>Start\<close> has returned nil; a \<^verbatim>\<open>Start\<close> that
  returns an error leaves none.
\<close>

fun spawned :: "event \<Rightarrow> bool" where
  "spawned (Call_Start a c None) = True"
| "spawned _ = False"

text \<open>The calls made on a stream: its writes and its close.\<close>

fun usesStream :: "stream \<Rightarrow> event \<Rightarrow> bool" where
  "usesStream st (Call_Write st' p n err) = (st' = st)"
| "usesStream st (Call_Close st' err) = (st' = st)"
| "usesStream st _ = False"






text \<open>The command \<^verbatim>\<open>NewWithContext\<close> configures, written out.\<close>

abbreviation xzCommand :: "Context \<Rightarrow> Writer \<Rightarrow> Cmd" where
  "xzCommand c w \<equiv>
     \<lparr>Ctx = c, Name = ''xz'', Args = [''xz'', ''--quiet'', ''--compress'', ''--stdout'', ''--best'', ''-''],
      Stdout = w\<rparr>"

subsection \<open>Concrete worlds, contexts and environments\<close>

definition world0 :: World where
  "world0 = \<lparr>events = [], finalizers = (\<lambda>a. None), allocated = 0\<rparr>"

text \<open>\<^verbatim>\<open>context.Background()\<close>: no value under any key, and \<^verbatim>\<open>Done\<close> returns.\<close>

definition backgroundContext :: Context where
  "backgroundContext = Context (Return NilValue) (Return ())"

text \<open>A caller's context with some value that is no \<^verbatim>\<open>bool\<close> under the key.\<close>

definition otherContext :: Context where
  "otherContext = Context (Return OtherValue) (Return ())"


text \<open>Every call succeeds and the pipe accepts all it is given.\<close>

definition okEnv :: Env where
  "okEnv = \<lparr>StdinPipe_err = (\<lambda>h. None), Start_err = (\<lambda>h c. None), Wait_err = (\<lambda>h. None),
     Write_res = (\<lambda>h st p. (int (length p), None)), Close_err = (\<lambda>h st. None)\<rparr>"

text \<open>No \<^verbatim>\<open>xz\<close> in the search path: \<^verbatim>\<open>Start\<close> reports the failed lookup.\<close>

definition noExecutableEnv :: Env where
  "noExecutableEnv = okEnv\<lparr>Start_err := (\<lambda>h c. Some (Error ''executable file not found in PATH''))\<rparr>"


text \<open>Closing the pipe fails and the process exits with a nonzero status.\<close>

definition failingCloseEnv :: Env where
  "failingCloseEnv = okEnv\<lparr>Wait_err := (\<lambda>h. Some (Error ''exit status 1'')),
     Close_err := (\<lambda>h st. Some (Error ''close |1: bad file descriptor''))\<rparr>"

section \<open>Properties\<close>

subsection \<open>The state after each call\<close>

lemma events_emit: "events (emit ev s) = events s @ [ev]"
  by (simp add: emit_def)

lemma finalizers_emit: "finalizers (emit ev s) = finalizers s"
  by (simp add: emit_def)

lemma allocated_emit: "allocated (emit ev s) = allocated s"
  by (simp add: emit_def)

lemma events_SetFinalizer: "events (runtime_SetFinalizer a f s) = events s @ [Call_SetFinalizer a f]"
  by (simp add: runtime_SetFinalizer_def events_emit)

lemma finalizers_SetFinalizer: "finalizers (runtime_SetFinalizer a f s) = (finalizers s)(a := f)"
  by (simp add: runtime_SetFinalizer_def finalizers_emit)

lemma allocated_SetFinalizer: "allocated (runtime_SetFinalizer a f s) = allocated s"
  by (simp add: runtime_SetFinalizer_def allocated_emit)

lemma new_simps:
  "fst (new s) = allocated s" "events (snd (new s)) = events s"
  "finalizers (snd (new s)) = finalizers s" "allocated (snd (new s)) = Suc (allocated s)"
  by (simp_all add: new_def)

lemmas world_simps = events_emit finalizers_emit allocated_emit
  events_SetFinalizer finalizers_SetFinalizer allocated_SetFinalizer new_simps

subsection \<open>Each function, path by path\<close>

lemma Close_steps:
  assumes "errPipe = Close_err env (events s @ [Call_SetFinalizer (addr xz) None]) (pipe xz)"
    and "errWait = Wait_err env (events s @ [Call_SetFinalizer (addr xz) None, Call_Close (pipe xz) errPipe])"
  shows "Close env xz s =
     (case errPipe of Some e \<Rightarrow> Some e | None \<Rightarrow> errWait,
      emit (Call_Wait (addr xz) errWait) (emit (Call_Close (pipe xz) errPipe)
        (runtime_SetFinalizer (addr xz) None s)))"
  using assms
  by (simp add: Close_def deactivateSharpEdgedFinalizer_def stream_Close_def Cmd_Wait_def Let_def
      world_simps split: option.splits)

lemma Write_steps:
  assumes "Write_res env (events s) (pipe xz) p = (n, err)"
  shows "Write env xz p s = ((n, err), emit (Call_Write (pipe xz) p n err) s)"
  using assms by (simp add: Write_def stream_Write_def)

lemma NewWithContext_nil: "NewWithContext env stk None w s = (Panic ''nil Context'', s)"
  by (simp add: NewWithContext_def)

lemma NewWithContext_pipe_error:
  assumes "StdinPipe_err env (events s) = Some e"
  shows "NewWithContext env stk (Some c) w s =
     (Return (None, Some e), emit (Call_StdinPipe (allocated s) (Some e)) (snd (new s)))"
  using assms
  by (simp add: NewWithContext_def Cmd_StdinPipe_def new_def Let_def events_emit)

lemma NewWithContext_start_error:
  assumes "StdinPipe_err env (events s) = None"
    and "Start_err env (events s @ [Call_StdinPipe (allocated s) None]) (xzCommand c w) = Some e"
  shows "NewWithContext env stk (Some c) w s =
     (Return (None, Some e),
      emit (Call_Start (allocated s) (xzCommand c w) (Some e))
        (emit (Call_StdinPipe (allocated s) None) (snd (new s))))"
  using assms
  by (simp add: NewWithContext_def Cmd_StdinPipe_def Cmd_Start_def CommandContext_def new_def
      Let_def events_emit)

lemma NewWithContext_done_panics:
  assumes "StdinPipe_err env (events s) = None"
    and "Start_err env (events s @ [Call_StdinPipe (allocated s) None]) (xzCommand c w) = None"
    and "ctxDone c = Panic m"
  shows "NewWithContext env stk (Some c) w s =
     (Panic m, emit (Call_StdinPipe (allocated s) None) (snd (new s)))"
  using assms
  by (simp add: NewWithContext_def Cmd_StdinPipe_def Cmd_Start_def CommandContext_def new_def
      Let_def events_emit)

lemma NewWithContext_value_panics:
  assumes "StdinPipe_err env (events s) = None"
    and "Start_err env (events s @ [Call_StdinPipe (allocated s) None]) (xzCommand c w) = None"
    and "ctxDone c = Return ()"
    and "ctxValue c = Panic m"
  shows "NewWithContext env stk (Some c) w s =
     (Panic m,
      emit (Call_Start (allocated s) (xzCommand c w) None)
        (emit (Call_StdinPipe (allocated s) None) (snd (new s))))"
  using assms
  by (simp add: NewWithContext_def Cmd_StdinPipe_def Cmd_Start_def CommandContext_def new_def
      activateSharpEdgedFinalizer_def calledByNew_def Let_def events_emit)

lemma NewWithContext_started:
  assumes "StdinPipe_err env (events s) = None"
    and "Start_err env (events s @ [Call_StdinPipe (allocated s) None]) (xzCommand c w) = None"
    and "ctxDone c = Return ()"
    and "ctxValue c = Return v"
  shows "NewWithContext env stk (Some c) w s =
     (Return (Some \<lparr>addr = allocated s, cmd = xzCommand c w, pipe = StdinPipe (allocated s)\<rparr>, None),
      runtime_SetFinalizer (allocated s)
        (Some (NeverCanceled
          (fst (runtime_Caller (if v = BoolValue True then 3 else 2)
                 ((thisFile, 96) # (thisFile, 70) # stk)))
          (snd (runtime_Caller (if v = BoolValue True then 3 else 2)
                 ((thisFile, 96) # (thisFile, 70) # stk)))))
        (emit (Call_Start (allocated s) (xzCommand c w) None)
          (emit (Call_StdinPipe (allocated s) None) (snd (new s)))))"
  using assms
  by (cases v)
    (simp_all add: NewWithContext_def Cmd_StdinPipe_def Cmd_Start_def CommandContext_def new_def
      activateSharpEdgedFinalizer_def calledByNew_def Let_def events_emit split: prod.splits)

text \<open>The five ways through \<^verbatim>\<open>NewWithContext\<close> with a context that is not nil.\<close>

lemma NewWithContext_paths:
  obtains (pipe_error) e where "StdinPipe_err env (events s) = Some e"
  | (start_error) e where "StdinPipe_err env (events s) = None"
      and "Start_err env (events s @ [Call_StdinPipe (allocated s) None]) (xzCommand c w) = Some e"
  | (done_panics) m where "StdinPipe_err env (events s) = None"
      and "Start_err env (events s @ [Call_StdinPipe (allocated s) None]) (xzCommand c w) = None"
      and "ctxDone c = Panic m"
  | (value_panics) m where "StdinPipe_err env (events s) = None"
      and "Start_err env (events s @ [Call_StdinPipe (allocated s) None]) (xzCommand c w) = None"
      and "ctxDone c = Return ()" and "ctxValue c = Panic m"
  | (started) v where "StdinPipe_err env (events s) = None"
      and "Start_err env (events s @ [Call_StdinPipe (allocated s) None]) (xzCommand c w) = None"
      and "ctxDone c = Return ()" and "ctxValue c = Return v"
proof (cases "StdinPipe_err env (events s)")
  case (Some e)
  then show ?thesis by (rule pipe_error)
next
  case None
  note pipe_ok = this
  show ?thesis
  proof (cases "Start_err env (events s @ [Call_StdinPipe (allocated s) None]) (xzCommand c w)")
    case (Some e)
    with pipe_ok show ?thesis by (rule start_error)
  next
    case None
    note start_ok = this
    show ?thesis
    proof (cases "ctxDone c")
      case (Panic m)
      with pipe_ok start_ok show ?thesis by (rule done_panics)
    next
      case (Return u)
      then have done_ok: "ctxDone c = Return ()" by simp
      show ?thesis
      proof (cases "ctxValue c")
        case (Panic m)
        with pipe_ok start_ok done_ok show ?thesis by (rule value_panics)
      next
        case (Return v)
        with pipe_ok start_ok done_ok show ?thesis by (rule started)
      qed
    qed
  qed
qed

text \<open>A sink that \<^verbatim>\<open>NewWithContext\<close> returns is the one it allocated, with its own pipe.\<close>

lemma NewWithContext_sink:
  assumes "fst (NewWithContext env stk ctx w s) = Return (Some xz, err)"
  shows "\<exists>c. ctx = Some c \<and> err = None
           \<and> xz = \<lparr>addr = allocated s, cmd = xzCommand c w, pipe = StdinPipe (allocated s)\<rparr>"
proof (cases ctx)
  case None
  with assms show ?thesis by (simp add: NewWithContext_nil)
next
  case (Some c)
  show ?thesis
  proof (cases rule: NewWithContext_paths [where env = env and s = s and c = c and w = w])
    case (pipe_error e)
    with assms Some show ?thesis by (simp add: NewWithContext_pipe_error)
  next
    case (start_error e)
    with assms Some show ?thesis by (simp add: NewWithContext_start_error)
  next
    case (done_panics m)
    with assms Some show ?thesis by (simp add: NewWithContext_done_panics)
  next
    case (value_panics m)
    with assms Some show ?thesis by (simp add: NewWithContext_value_panics)
  next
    case (started v)
    with assms Some show ?thesis by (auto simp add: NewWithContext_started)
  qed
qed

text \<open>
  The calls \<^verbatim>\<open>NewWithContext\<close> adds to the log: none of them is made on a stream, and a
  \<^verbatim>\<open>Start\<close> among them is of the command it configured.
\<close>

lemma NewWithContext_events:
  "\<exists>evs. events (snd (NewWithContext env stk ctx w s)) = events s @ evs
     \<and> (\<forall>st. filter (usesStream st) evs = [])
     \<and> (\<forall>a c e. Call_Start a c e \<in> set evs \<longrightarrow> (\<exists>x. ctx = Some x \<and> c = xzCommand x w))"
proof (cases ctx)
  case None
  then show ?thesis by (simp add: NewWithContext_nil)
next
  case (Some c)
  show ?thesis
  proof (cases rule: NewWithContext_paths [where env = env and s = s and c = c and w = w])
    case (pipe_error e)
    with Some show ?thesis by (simp add: NewWithContext_pipe_error world_simps)
  next
    case (start_error e)
    with Some show ?thesis by (simp add: NewWithContext_start_error world_simps)
  next
    case (done_panics m)
    with Some show ?thesis by (simp add: NewWithContext_done_panics world_simps)
  next
    case (value_panics m)
    with Some show ?thesis by (simp add: NewWithContext_value_panics world_simps)
  next
    case (started v)
    with Some show ?thesis by (simp add: NewWithContext_started world_simps)
  qed
qed

subsection \<open>Close\<close>

text \<open>
  C1. Whatever the environment answers, \<^verbatim>\<open>Close\<close> makes both cleanup calls: after
  clearing the finalizer it closes the pipe and then waits for the process, the wait
  being made also when the close of the pipe returned an error. With \<open>errPipe\<close> the
  error the environment gives for the close of the pipe and \<open>errWait\<close> the one it gives
  for the wait, \<^verbatim>\<open>Close\<close> returns \<open>errPipe\<close> when it is not nil and \<open>errWait\<close>
  otherwise; so when both fail, the error of the pipe's close is the one returned.
\<close>

theorem Close_runs_both_steps:
  "(let errPipe = Close_err env (events s @ [Call_SetFinalizer (addr xz) None]) (pipe xz);
        errWait = Wait_err env
          (events s @ [Call_SetFinalizer (addr xz) None, Call_Close (pipe xz) errPipe])
    in events (snd (Close env xz s)) =
         events s @ [Call_SetFinalizer (addr xz) None, Call_Close (pipe xz) errPipe,
                     Call_Wait (addr xz) errWait]
       \<and> fst (Close env xz s) = (case errPipe of Some e \<Rightarrow> Some e | None \<Rightarrow> errWait))"
  by (simp add: Close_steps [OF refl refl] world_simps Let_def)

text \<open>Both steps fail: the wait is still made, and the error of the pipe's close returned.\<close>

lemma Close_both_fail:
  "fst (Close failingCloseEnv xz s) = Some (Error ''close |1: bad file descriptor'')
   \<and> events (snd (Close failingCloseEnv xz s)) =
       events s @ [Call_SetFinalizer (addr xz) None,
                   Call_Close (pipe xz) (Some (Error ''close |1: bad file descriptor'')),
                   Call_Wait (addr xz) (Some (Error ''exit status 1''))]"
  by (simp add: Close_steps [OF refl refl] world_simps failingCloseEnv_def okEnv_def)

subsection \<open>Creation\<close>

text \<open>
  C3. When the input pipe cannot be created, or the pipe is created and \<^verbatim>\<open>Start\<close>
  fails (which is where a missing executable is reported), \<^verbatim>\<open>NewWithContext\<close> returns
  a nil sink and that error, the log gains no started process, and no finalizer is set.
\<close>

theorem NewWithContext_failure_leaves_no_process:
  assumes "StdinPipe_err env (events s) = Some e
     \<or> (StdinPipe_err env (events s) = None
        \<and> Start_err env (events s @ [Call_StdinPipe (allocated s) None]) (xzCommand c w) = Some e)"
  shows "fst (NewWithContext env stk (Some c) w s) = Return (None, Some e)
     \<and> filter spawned (events (snd (NewWithContext env stk (Some c) w s))) = filter spawned (events s)
     \<and> finalizers (snd (NewWithContext env stk (Some c) w s)) = finalizers s"
  using assms
  by (auto simp add: NewWithContext_pipe_error NewWithContext_start_error world_simps)

theorem NewWithContext_failure_leaves_no_process_witness:
  "fst (NewWithContext noExecutableEnv [(''main.go'', 12)] (Some backgroundContext) (Writer 0) world0)
     = Return (None, Some (Error ''executable file not found in PATH''))
   \<and> filter spawned (events (snd (NewWithContext noExecutableEnv [(''main.go'', 12)]
        (Some backgroundContext) (Writer 0) world0))) = []"
  using NewWithContext_failure_leaves_no_process
    [of noExecutableEnv world0 "Error ''executable file not found in PATH''" backgroundContext
        "Writer 0" "[(''main.go'', 12)]"]
  by (simp add: noExecutableEnv_def okEnv_def world0_def)

text \<open>
  C8. Whatever the context, the destination, the caller and the environment, a command
  that \<^verbatim>\<open>NewWithContext\<close> or \<^verbatim>\<open>New\<close> starts is \<^verbatim>\<open>xz\<close> with the arguments
  \<^verbatim>\<open>--quiet --compress --stdout --best -\<close>, and so is the command of a sink that is
  returned.
\<close>

theorem creation_arguments_fixed:
  "(Call_Start a c e \<in> set (drop (length (events s)) (events (snd (NewWithContext env stk ctx w s))))
      \<longrightarrow> Name c = ''xz''
        \<and> Args c = [''xz'', ''--quiet'', ''--compress'', ''--stdout'', ''--best'', ''-''])
   \<and> (Call_Start a c e \<in> set (drop (length (events s)) (events (snd (New env stk w s))))
      \<longrightarrow> Name c = ''xz''
        \<and> Args c = [''xz'', ''--quiet'', ''--compress'', ''--stdout'', ''--best'', ''-''])
   \<and> (fst (NewWithContext env stk ctx w s) = Return (Some xz, err)
      \<longrightarrow> Name (cmd xz) = ''xz''
        \<and> Args (cmd xz) = [''xz'', ''--quiet'', ''--compress'', ''--stdout'', ''--best'', ''-''])"
proof -
  have starts: "Name c = ''xz'' \<and> Args c = [''xz'', ''--quiet'', ''--compress'', ''--stdout'', ''--best'', ''-'']"
    if "Call_Start a c e \<in> set (drop (length (events s)) (events (snd (NewWithContext env stk' ctx' w s))))"
    for stk' ctx'
  proof -
    obtain evs where evs: "events (snd (NewWithContext env stk' ctx' w s)) = events s @ evs"
      and cmds: "\<forall>a c e. Call_Start a c e \<in> set evs \<longrightarrow> (\<exists>x. ctx' = Some x \<and> c = xzCommand x w)"
      using NewWithContext_events [of env stk' ctx' w s] by blast
    from that evs have "Call_Start a c e \<in> set evs" by simp
    with cmds obtain x where "c = xzCommand x w" by blast
    then show ?thesis by simp
  qed
  have sink: "Name (cmd xz) = ''xz'' \<and> Args (cmd xz) = [''xz'', ''--quiet'', ''--compress'', ''--stdout'', ''--best'', ''-'']"
    if "fst (NewWithContext env stk ctx w s) = Return (Some xz, err)"
    using NewWithContext_sink [OF that] by auto
  from starts [of stk ctx] starts [of "(thisFile, 40) # stk" "Some blankContext"] sink
  show ?thesis by (simp add: New_def)
qed

theorem creation_arguments_fixed_witness:
  "Call_Start 0 (xzCommand otherContext (Writer 7)) None
     \<in> set (drop (length (events world0))
         (events (snd (NewWithContext okEnv [(''main.go'', 12)] (Some otherContext) (Writer 7) world0))))
   \<and> Call_Start 0 (xzCommand blankContext (Writer 7)) None
     \<in> set (drop (length (events world0)) (events (snd (New okEnv [(''main.go'', 12)] (Writer 7) world0))))
   \<and> fst (NewWithContext okEnv [(''main.go'', 12)] (Some otherContext) (Writer 7) world0)
       = Return (Some \<lparr>addr = 0, cmd = xzCommand otherContext (Writer 7), pipe = StdinPipe 0\<rparr>, None)
   \<and> Name (xzCommand otherContext (Writer 7)) = ''xz''
   \<and> Args (xzCommand otherContext (Writer 7))
       = [''xz'', ''--quiet'', ''--compress'', ''--stdout'', ''--best'', ''-'']"
proof -
  have other: "ctxDone otherContext = Return ()" "ctxValue otherContext = Return OtherValue"
    and blank: "ctxDone blankContext = Return ()" "ctxValue blankContext = Return (BoolValue True)"
    by (simp_all add: otherContext_def blankContext_def)
  have env: "StdinPipe_err okEnv h = None" "Start_err okEnv h c = None" for h c
    by (simp_all add: okEnv_def)
  from creation_arguments_fixed
    [of 0 "xzCommand otherContext (Writer 7)" None world0 okEnv "[(''main.go'', 12)]"
        "Some otherContext" "Writer 7"
        "\<lparr>addr = 0, cmd = xzCommand otherContext (Writer 7), pipe = StdinPipe 0\<rparr>" None]
  show ?thesis
    by (simp add: New_def NewWithContext_started [OF env other] NewWithContext_started [OF env blank]
        world_simps world0_def)
qed



subsection \<open>Write\<close>

text \<open>
  C5. \<^verbatim>\<open>Write\<close> makes one call, the write of \<open>p\<close> on the sink's pipe, and returns the
  count and the error of that call as they are.
\<close>

theorem Write_forwards_to_pipe:
  "fst (Write env xz p s) = Write_res env (events s) (pipe xz) p
   \<and> (\<exists>n err. Write_res env (events s) (pipe xz) p = (n, err)
         \<and> events (snd (Write env xz p s)) = events s @ [Call_Write (pipe xz) p n err])
   \<and> finalizers (snd (Write env xz p s)) = finalizers s"
  by (cases "Write_res env (events s) (pipe xz) p") (simp add: Write_steps world_simps)



subsection \<open>The finalizer\<close>

text \<open>
  C6. The first thing \<^verbatim>\<open>Close\<close> does is clear the finalizer of the sink: the state it
  closes the pipe in is the one \<^verbatim>\<open>deactivateSharpEdgedFinalizer\<close> leaves, in which the
  sink has no finalizer; the close of the pipe and the wait follow it in the log, and
  neither sets a finalizer again.
\<close>

theorem Close_deactivates_first:
  "finalizers (deactivateSharpEdgedFinalizer xz s) (addr xz) = None
   \<and> events (deactivateSharpEdgedFinalizer xz s) = events s @ [Call_SetFinalizer (addr xz) None]
   \<and> (\<exists>errPipe errWait.
        events (snd (Close env xz s)) =
          events (deactivateSharpEdgedFinalizer xz s)
            @ [Call_Close (pipe xz) errPipe, Call_Wait (addr xz) errWait])
   \<and> finalizers (snd (Close env xz s)) = finalizers (deactivateSharpEdgedFinalizer xz s)"
  by (simp add: Close_steps [OF refl refl] deactivateSharpEdgedFinalizer_def world_simps)

text \<open>
  The finalizer set at creation captures the file and line of the caller: of the caller
  of \<^verbatim>\<open>New\<close>, three frames up, and of the caller of \<^verbatim>\<open>NewWithContext\<close>, two frames up,
  when the context does not answer \<^verbatim>\<open>true\<close> under the discriminator key.
\<close>

lemma NewWithContext_returns_sink:
  assumes "fst (NewWithContext env stk (Some c) w s) = Return (Some xz, err)"
  shows "StdinPipe_err env (events s) = None
     \<and> Start_err env (events s @ [Call_StdinPipe (allocated s) None]) (xzCommand c w) = None
     \<and> ctxDone c = Return () \<and> (\<exists>v. ctxValue c = Return v)"
proof (cases rule: NewWithContext_paths [where env = env and s = s and c = c and w = w])
  case (pipe_error e)
  with assms show ?thesis by (simp add: NewWithContext_pipe_error)
next
  case (start_error e)
  with assms show ?thesis by (simp add: NewWithContext_start_error)
next
  case (done_panics m)
  with assms show ?thesis by (simp add: NewWithContext_done_panics)
next
  case (value_panics m)
  with assms show ?thesis by (simp add: NewWithContext_value_panics)
next
  case (started v)
  then show ?thesis by simp
qed

lemma NewWithContext_records_caller:
  assumes "fst (NewWithContext env ((file, line) # stk) (Some c) w s) = Return (Some xz, err)"
    and "calledByNew c = Return False"
  shows "finalizers (snd (NewWithContext env ((file, line) # stk) (Some c) w s)) (addr xz)
     = Some (NeverCanceled file line)"
proof -
  from NewWithContext_sink [OF assms(1)]
  have xz: "xz = \<lparr>addr = allocated s, cmd = xzCommand c w, pipe = StdinPipe (allocated s)\<rparr>"
    by simp
  from NewWithContext_returns_sink [OF assms(1)]
  obtain v where paths: "StdinPipe_err env (events s) = None"
    "Start_err env (events s @ [Call_StdinPipe (allocated s) None]) (xzCommand c w) = None"
    "ctxDone c = Return ()" "ctxValue c = Return v"
    by blast
  from assms(2) paths(4) have "v \<noteq> BoolValue True"
    by (auto simp add: calledByNew_def)
  then show ?thesis
    by (simp add: NewWithContext_started [OF paths] xz runtime_Caller_def world_simps)
qed

lemma New_records_caller:
  assumes "fst (New env ((file, line) # stk) w s) = Return (Some xz, err)"
  shows "finalizers (snd (New env ((file, line) # stk) w s)) (addr xz) = Some (NeverCanceled file line)"
proof -
  from assms have sink: "fst (NewWithContext env ((thisFile, 40) # (file, line) # stk) (Some blankContext) w s)
      = Return (Some xz, err)"
    by (simp add: New_def)
  from NewWithContext_sink [OF sink]
  have xz: "xz = \<lparr>addr = allocated s, cmd = xzCommand blankContext w, pipe = StdinPipe (allocated s)\<rparr>"
    by simp
  from NewWithContext_returns_sink [OF sink]
  have paths: "StdinPipe_err env (events s) = None"
    "Start_err env (events s @ [Call_StdinPipe (allocated s) None]) (xzCommand blankContext w) = None"
    "ctxDone blankContext = Return ()" "ctxValue blankContext = Return (BoolValue True)"
    by (simp_all add: blankContext_def)
  show ?thesis
    by (simp add: New_def NewWithContext_started [OF paths] xz runtime_Caller_def world_simps)
qed

subsection \<open>The destination\<close>

text \<open>
  C9. For a sink that \<^verbatim>\<open>NewWithContext\<close> returned for the destination \<open>w\<close>: \<open>w\<close> is
  the \<open>Stdout\<close> of its command, its pipe is no destination writer, and neither its
  creation nor any \<^verbatim>\<open>Write\<close> or \<^verbatim>\<open>Close\<close> on it, in any state and environment, adds to
  the log a write or a close of a destination writer, \<open>w\<close> or another.
\<close>

theorem destination_never_used:
  assumes "fst (NewWithContext env stk ctx w s0) = Return (Some xz, err)"
  shows "Stdout (cmd xz) = w
     \<and> pipe xz \<noteq> Destination d
     \<and> filter (usesStream (Destination d)) (events (snd (NewWithContext env stk ctx w s0)))
         = filter (usesStream (Destination d)) (events s0)
     \<and> filter (usesStream (Destination d)) (events (snd (Write env' xz p s)))
         = filter (usesStream (Destination d)) (events s)
     \<and> filter (usesStream (Destination d)) (events (snd (Close env' xz s)))
         = filter (usesStream (Destination d)) (events s)"
proof -
  from NewWithContext_sink [OF assms]
  obtain c where xz: "xz = \<lparr>addr = allocated s0, cmd = xzCommand c w, pipe = StdinPipe (allocated s0)\<rparr>"
    by blast
  obtain evs where "events (snd (NewWithContext env stk ctx w s0)) = events s0 @ evs"
    and "\<forall>st. filter (usesStream st) evs = []"
    using NewWithContext_events [of env stk ctx w s0] by blast
  then have creation: "filter (usesStream (Destination d)) (events (snd (NewWithContext env stk ctx w s0)))
      = filter (usesStream (Destination d)) (events s0)"
    by simp
  have writing: "filter (usesStream (Destination d)) (events (snd (Write env' xz p s)))
      = filter (usesStream (Destination d)) (events s)"
    by (cases "Write_res env' (events s) (pipe xz) p") (simp add: Write_steps world_simps xz)
  have closing: "filter (usesStream (Destination d)) (events (snd (Close env' xz s)))
      = filter (usesStream (Destination d)) (events s)"
    by (simp add: Close_steps [OF refl refl] world_simps xz)
  from xz creation writing closing show ?thesis by simp
qed

theorem destination_never_used_witness:
  "fst (NewWithContext okEnv [(''main.go'', 12)] (Some backgroundContext) (Writer 7) world0)
     = Return (Some \<lparr>addr = 0, cmd = xzCommand backgroundContext (Writer 7), pipe = StdinPipe 0\<rparr>, None)
   \<and> filter (usesStream (Destination (Writer 7)))
        (events (snd (Close failingCloseEnv
           \<lparr>addr = 0, cmd = xzCommand backgroundContext (Writer 7), pipe = StdinPipe 0\<rparr>
           (snd (NewWithContext okEnv [(''main.go'', 12)] (Some backgroundContext) (Writer 7) world0)))))
     = []"
proof -
  have background: "ctxDone backgroundContext = Return ()" "ctxValue backgroundContext = Return NilValue"
    by (simp_all add: backgroundContext_def)
  have env: "StdinPipe_err okEnv h = None" "Start_err okEnv h c = None" for h c
    by (simp_all add: okEnv_def)
  have created: "fst (NewWithContext okEnv [(''main.go'', 12)] (Some backgroundContext) (Writer 7) world0)
     = Return (Some \<lparr>addr = 0, cmd = xzCommand backgroundContext (Writer 7), pipe = StdinPipe 0\<rparr>, None)"
    by (simp add: NewWithContext_started [OF env background] world0_def)
  have before: "filter (usesStream (Destination (Writer 7)))
      (events (snd (NewWithContext okEnv [(''main.go'', 12)] (Some backgroundContext) (Writer 7) world0))) = []"
    by (simp add: NewWithContext_started [OF env background] world_simps world0_def)
  from destination_never_used [OF created, of "Writer 7" failingCloseEnv "[]"
      "snd (NewWithContext okEnv [(''main.go'', 12)] (Some backgroundContext) (Writer 7) world0)"]
    created before
  show ?thesis by simp
qed

end
